theory Spec2Isabelle
  imports Main "HOL-Library.Word" "HOL-Library.Sublist"
begin

unbundle bit_operations_syntax

section \<open>Python values and exceptions\<close>

text \<open>
  The exceptions that the modelled functions raise or catch.  \<open>OSError\<close> stands for the
  class itself and for those of its subclasses that the code does not name;
  \<open>ProcessLookupError\<close>, \<open>PermissionError\<close> and \<open>FileNotFoundError\<close> are subclasses of
  \<open>OSError\<close>; \<open>OverflowError\<close>, \<open>AttributeError\<close>, \<open>ZeroDivisionError\<close>,
  \<open>IndexError\<close>, \<open>TimeoutExpired\<close> (of the subprocess module) and \<open>RuntimeError\<close> are
  not, and neither are they subclasses of \<open>ValueError\<close>.
\<close>

datatype exn =
    ValueError
  | ProcessLookupError
  | PermissionError
  | FileNotFoundError
  | OSError
  | OverflowError
  | AttributeError
  | ZeroDivisionError
  | IndexError
  | TimeoutExpired
  | RuntimeError string

section \<open>The port allocator (tunnel.py, get_unique_port)\<close>

subsection \<open>str.encode(): UTF-8 of the code points a char can hold\<close>

type_synonym byte = "8 word"

text \<open>
  A \<open>char\<close> carries a code point below 256.  UTF-8 encodes a code point below 128 as
  itself and one from 128 to 255 in two bytes.
\<close>

definition utf8_char :: "char \<Rightarrow> byte list" where
  "utf8_char c =
     (let n = (of_char c :: nat)
      in if n < 128 then [of_nat n]
         else [of_nat (192 + n div 64), of_nat (128 + n mod 64)])"

definition encode :: "string \<Rightarrow> byte list" where
  "encode s = concat (map utf8_char s)"

subsection \<open>hashlib.md5 (RFC 1321)\<close>

type_synonym u32 = "32 word"

definition md5_s :: "nat list" where
  "md5_s =
     [7, 12, 17, 22, 7, 12, 17, 22, 7, 12, 17, 22, 7, 12, 17, 22,
      5, 9, 14, 20, 5, 9, 14, 20, 5, 9, 14, 20, 5, 9, 14, 20,
      4, 11, 16, 23, 4, 11, 16, 23, 4, 11, 16, 23, 4, 11, 16, 23,
      6, 10, 15, 21, 6, 10, 15, 21, 6, 10, 15, 21, 6, 10, 15, 21]"

definition md5_K :: "u32 list" where
  "md5_K =
     [0xd76aa478, 0xe8c7b756, 0x242070db, 0xc1bdceee,
      0xf57c0faf, 0x4787c62a, 0xa8304613, 0xfd469501,
      0x698098d8, 0x8b44f7af, 0xffff5bb1, 0x895cd7be,
      0x6b901122, 0xfd987193, 0xa679438e, 0x49b40821,
      0xf61e2562, 0xc040b340, 0x265e5a51, 0xe9b6c7aa,
      0xd62f105d, 0x02441453, 0xd8a1e681, 0xe7d3fbc8,
      0x21e1cde6, 0xc33707d6, 0xf4d50d87, 0x455a14ed,
      0xa9e3e905, 0xfcefa3f8, 0x676f02d9, 0x8d2a4c8a,
      0xfffa3942, 0x8771f681, 0x6d9d6122, 0xfde5380c,
      0xa4beea44, 0x4bdecfa9, 0xf6bb4b60, 0xbebfbc70,
      0x289b7ec6, 0xeaa127fa, 0xd4ef3085, 0x04881d05,
      0xd9d4d039, 0xe6db99e5, 0x1fa27cf8, 0xc4ac5665,
      0xf4292244, 0x432aff97, 0xab9423a7, 0xfc93a039,
      0x655b59c3, 0x8f0ccc92, 0xffeff47d, 0x85845dd1,
      0x6fa87e4f, 0xfe2ce6e0, 0xa3014314, 0x4e0811a1,
      0xf7537e82, 0xbd3af235, 0x2ad7d2bb, 0xeb86d391]"

definition rotl32 :: "u32 \<Rightarrow> nat \<Rightarrow> u32" where
  "rotl32 x n = push_bit n x OR drop_bit (32 - n) x"

text \<open>Four bytes, least significant first, make a word; and back.\<close>

definition le_word :: "byte list \<Rightarrow> u32" where
  "le_word bs = foldr (\<lambda>b w. push_bit 8 w OR ucast b) bs 0"

definition le_bytes :: "u32 \<Rightarrow> byte list" where
  "le_bytes w = map (\<lambda>k. ucast (drop_bit (8 * k) w)) [0, 1, 2, 3]"

definition md5_pad :: "byte list \<Rightarrow> byte list" where
  "md5_pad msg =
     msg @ [0x80] @ replicate ((119 - length msg mod 64) mod 64) 0
       @ map (\<lambda>k. ucast (drop_bit (8 * k) (of_nat (8 * length msg) :: 64 word)))
           [0, 1, 2, 3, 4, 5, 6, 7]"

definition md5_blocks :: "byte list \<Rightarrow> u32 list list" where
  "md5_blocks bs =
     map (\<lambda>k. map (\<lambda>j. le_word (take 4 (drop (64 * k + 4 * j) bs))) [0..<16])
       [0..<length bs div 64]"

type_synonym md5_state = "u32 \<times> u32 \<times> u32 \<times> u32"

definition md5_round :: "u32 list \<Rightarrow> md5_state \<Rightarrow> nat \<Rightarrow> md5_state" where
  "md5_round M st i =
     (case st of (A, B, C, D) \<Rightarrow>
        let (F, g) =
              (if i < 16 then ((B AND C) OR (NOT B AND D), i)
               else if i < 32 then ((D AND B) OR (NOT D AND C), (5 * i + 1) mod 16)
               else if i < 48 then (B XOR C XOR D, (3 * i + 5) mod 16)
               else (C XOR (B OR NOT D), (7 * i) mod 16));
            F' = F + A + md5_K ! i + M ! g
        in (D, B + rotl32 F' (md5_s ! i), B, C))"

definition md5_block :: "md5_state \<Rightarrow> u32 list \<Rightarrow> md5_state" where
  "md5_block st M =
     (case st of (a0, b0, c0, d0) \<Rightarrow>
        case foldl (md5_round M) st [0..<64] of (A, B, C, D) \<Rightarrow>
          (a0 + A, b0 + B, c0 + C, d0 + D))"

definition md5_init :: md5_state where
  "md5_init = (0x67452301, 0xefcdab89, 0x98badcfe, 0x10325476)"

definition md5_digest :: "byte list \<Rightarrow> byte list" where
  "md5_digest msg =
     (case foldl md5_block md5_init (md5_blocks (md5_pad msg)) of (a, b, c, d) \<Rightarrow>
        le_bytes a @ le_bytes b @ le_bytes c @ le_bytes d)"

subsection \<open>hexdigest() and int(text, 16)\<close>

definition hex_digit :: "nat \<Rightarrow> char" where
  "hex_digit n = ''0123456789abcdef'' ! (n mod 16)"

definition hex_byte :: "byte \<Rightarrow> string" where
  "hex_byte b = [hex_digit (unat b div 16), hex_digit (unat b mod 16)]"

definition hexdigest :: "byte list \<Rightarrow> string" where
  "hexdigest msg = concat (map hex_byte (md5_digest msg))"

text \<open>
  The value of one hexadecimal digit, and \<open>int(text, 16)\<close> on a text of hexadecimal
  digits; any other character, or no digit at all, raises \<open>ValueError\<close>.
\<close>

definition hex_value :: "char \<Rightarrow> int option" where
  "hex_value c =
     (let n = (of_char c :: nat)
      in if 48 \<le> n \<and> n \<le> 57 then Some (int n - 48)
         else if 97 \<le> n \<and> n \<le> 102 then Some (int n - 87)
         else if 65 \<le> n \<and> n \<le> 70 then Some (int n - 55)
         else None)"

fun int16_acc :: "int \<Rightarrow> string \<Rightarrow> exn + int" where
  "int16_acc acc [] = Inr acc"
| "int16_acc acc (c # cs) =
     (case hex_value c of
        None \<Rightarrow> Inl ValueError
      | Some d \<Rightarrow> int16_acc (16 * acc + d) cs)"

definition int16 :: "string \<Rightarrow> exn + int" where
  "int16 s = (if s = [] then Inl ValueError else int16_acc 0 s)"

subsection \<open>get_unique_port\<close>

text \<open>
  \<^verbatim>\<open>hash_int = int(hashlib.md5(context_name.encode()).hexdigest()[:4], 16)\<close>
  \<^verbatim>\<open>return port_range_start + (hash_int % port_range_size)\<close>
  Python's \<open>%\<close> raises \<open>ZeroDivisionError\<close> for a zero divisor and otherwise takes the
  sign of the divisor, as \<open>mod\<close> on \<open>int\<close> does.
\<close>

definition get_unique_port :: "string \<Rightarrow> int \<Rightarrow> int \<Rightarrow> exn + int" where
  "get_unique_port context_name port_range_start port_range_size =
     (case int16 (take 4 (hexdigest (encode context_name))) of
        Inl e \<Rightarrow> Inl e
      | Inr hash_int \<Rightarrow>
          if port_range_size = 0 then Inl ZeroDivisionError
          else Inr (port_range_start + hash_int mod port_range_size))"

text \<open>The defaults of the two keyword arguments.\<close>

definition default_port_range_start :: int where
  "default_port_range_start = 16443"

definition default_port_range_size :: int where
  "default_port_range_size = 10000"

section \<open>Python text: strip, split, int and str\<close>

text \<open>
  The code points below 256 that \<open>str.strip()\<close>, \<open>str.split()\<close> and \<open>int()\<close> treat as
  white space: tab to carriage return, the four separators 28 to 31, the space, NEL and
  the no-break space.
\<close>

definition is_space :: "char \<Rightarrow> bool" where
  "is_space c =
     (let n = (of_char c :: nat)
      in (9 \<le> n \<and> n \<le> 13) \<or> (28 \<le> n \<and> n \<le> 32) \<or> n = 133 \<or> n = 160)"

definition strip :: "string \<Rightarrow> string" where
  "strip s = rev (dropWhile is_space (rev (dropWhile is_space s)))"

text \<open>\<open>s.split()\<close>: the maximal runs of characters that are not white space.\<close>

fun split_acc :: "string \<Rightarrow> string \<Rightarrow> string list" where
  "split_acc cur [] = (if cur = [] then [] else [rev cur])"
| "split_acc cur (c # cs) =
     (if is_space c
      then (if cur = [] then split_acc [] cs else rev cur # split_acc [] cs)
      else split_acc (c # cur) cs)"

definition split :: "string \<Rightarrow> string list" where
  "split s = split_acc [] s"

definition digit_value :: "char \<Rightarrow> int option" where
  "digit_value c =
     (let n = (of_char c :: nat)
      in if 48 \<le> n \<and> n \<le> 57 then Some (int n - 48) else None)"

text \<open>
  The digits of a decimal literal: at least one digit, and single underscores only
  between two digits.  The flag says that the character before was a digit.
\<close>

fun dec_acc :: "int \<Rightarrow> bool \<Rightarrow> string \<Rightarrow> exn + int" where
  "dec_acc acc after_digit [] = (if after_digit then Inr acc else Inl ValueError)"
| "dec_acc acc after_digit (c # cs) =
     (case digit_value c of
        Some d \<Rightarrow> dec_acc (10 * acc + d) True cs
      | None \<Rightarrow>
          if c = CHR ''_'' \<and> after_digit then dec_acc acc False cs
          else Inl ValueError)"

text \<open>
  \<open>int(text)\<close>: white space around the literal is dropped, one sign is allowed, anything
  else raises \<open>ValueError\<close>.  (The limit that newer interpreters put on the number of
  digits is not modelled.)
\<close>

definition py_int :: "string \<Rightarrow> exn + int" where
  "py_int s =
     (case strip s of
        [] \<Rightarrow> Inl ValueError
      | c # cs \<Rightarrow>
          if c = CHR ''-'' then map_sum id uminus (dec_acc 0 False cs)
          else if c = CHR ''+'' then dec_acc 0 False cs
          else dec_acc 0 False (c # cs))"

definition digit_char :: "int \<Rightarrow> char" where
  "digit_char d = ''0123456789'' ! nat (d mod 10)"

function str_nonneg :: "int \<Rightarrow> string" where
  "str_nonneg n = (if n < 10 then [digit_char n] else str_nonneg (n div 10) @ [digit_char n])"
  by pat_completeness auto
termination
  by (relation "measure nat") auto

declare str_nonneg.simps [simp del]

text \<open>\<open>str(n)\<close> for an integer.\<close>

definition str_int :: "int \<Rightarrow> string" where
  "str_int n = (if n < 0 then CHR ''-'' # str_nonneg (- n) else str_nonneg n)"

section \<open>The values a YAML document loads to\<close>

text \<open>
  The scalars the code handles, and \<open>PObj\<close> for any other object (a list, a nested
  mapping, a float, a date): of such an object the code uses only the truth value and the
  text that an f-string makes of it, which are its two fields.
\<close>

datatype pyval = PNone | PBool bool | PInt int | PStr string | PObj bool string

fun truthy :: "pyval \<Rightarrow> bool" where
  "truthy PNone = False"
| "truthy (PBool b) = b"
| "truthy (PInt n) = (n \<noteq> 0)"
| "truthy (PStr s) = (s \<noteq> [])"
| "truthy (PObj t s) = t"

fun py_str :: "pyval \<Rightarrow> string" where
  "py_str PNone = ''None''"
| "py_str (PBool b) = (if b then ''True'' else ''False'')"
| "py_str (PInt n) = str_int n"
| "py_str (PStr s) = s"
| "py_str (PObj t s) = s"

text \<open>
  What \<open>yaml.safe_load\<close> returns: a mapping (a Python dict, here the list of its items)
  or any other value.  Only a dict has the method \<open>get\<close>.
\<close>

datatype pydoc = Dict "(pyval \<times> pyval) list" | Value pyval

fun truthy_doc :: "pydoc \<Rightarrow> bool" where
  "truthy_doc (Dict items) = (items \<noteq> [])"
| "truthy_doc (Value v) = truthy v"

definition dict_get :: "(pyval \<times> pyval) list \<Rightarrow> string \<Rightarrow> pyval \<Rightarrow> pyval" where
  "dict_get items key dflt = (case map_of items (PStr key) of None \<Rightarrow> dflt | Some v \<Rightarrow> v)"

text \<open>
  The yaml module is outside the repository: its two functions are parameters.  Either
  may raise.
\<close>

record yaml_module =
  safe_dump :: "(pyval \<times> pyval) list \<Rightarrow> exn + string"
  safe_load :: "string \<Rightarrow> exn + pydoc"

section \<open>The state outside the program\<close>

text \<open>
  What the kernel answers when a signal is sent to a process id: the process is there and
  may be signalled, it is there but belongs to somebody else, or there is none.
\<close>

datatype proc_status = Live | Denied | NoProc

text \<open>
  The state directory (one directory; the files in it by name, with their text), the
  process table, and the ssh command lines run so far.
\<close>

record world =
  state_dir_exists :: bool
  files :: "string \<rightharpoonup> string"
  procs :: "int \<Rightarrow> proc_status"
  ssh_calls :: "string list list"

text \<open>
  \<open>os.kill(pid, sig)\<close>.  A number outside the range of the C type of a process id is
  refused with \<open>OverflowError\<close> before the kernel is asked.  Signal 0 only probes; a
  delivered SIGTERM ends the process.
\<close>

definition pid_in_range :: "int \<Rightarrow> bool" where
  "pid_in_range pid = (- (2 ^ 31) \<le> pid \<and> pid < 2 ^ 31)"

definition os_kill :: "int \<Rightarrow> nat \<Rightarrow> world \<Rightarrow> (exn + unit) \<times> world" where
  "os_kill pid sig w =
     (if \<not> pid_in_range pid then (Inl OverflowError, w)
      else case procs w pid of
             NoProc \<Rightarrow> (Inl ProcessLookupError, w)
           | Denied \<Rightarrow> (Inl PermissionError, w)
           | Live \<Rightarrow>
               (Inr (), if sig = 0 then w else w\<lparr>procs := (procs w)(pid := NoProc)\<rparr>))"

subsection \<open>File operations, one system call each\<close>

text \<open>
  \<open>Mkdir\<close> is \<open>state_dir.mkdir(parents=True, exist_ok=True)\<close>; \<open>Truncate\<close> is what
  \<open>open(path, 'w')\<close> does to the file (it is created, or emptied, at once);
  \<open>Append\<close> is the buffered text reaching the file when the \<open>with\<close> block closes it;
  \<open>Unlink\<close> is \<open>path.unlink(missing_ok=True)\<close>.
\<close>

datatype fs_op = Mkdir | Truncate string | Append string string | Unlink string

fun apply_op :: "world \<Rightarrow> fs_op \<Rightarrow> world" where
  "apply_op w Mkdir = w\<lparr>state_dir_exists := True\<rparr>"
| "apply_op w (Truncate path) = w\<lparr>files := (files w)(path \<mapsto> [])\<rparr>"
| "apply_op w (Append path text) =
     w\<lparr>files := (files w)(path \<mapsto> (case files w path of None \<Rightarrow> [] | Some old \<Rightarrow> old) @ text)\<rparr>"
| "apply_op w (Unlink path) = w\<lparr>files := (files w)(path := None)\<rparr>"

definition run_ops :: "fs_op list \<Rightarrow> world \<Rightarrow> world" where
  "run_ops ops w = foldl apply_op w ops"


section \<open>tunnel.py\<close>

text \<open>
  \<open>except (ValueError, ProcessLookupError, OSError)\<close>: the exceptions that the liveness
  check and the kill treat as a stale record.
\<close>

fun stale_handled :: "exn \<Rightarrow> bool" where
  "stale_handled ValueError = True"
| "stale_handled ProcessLookupError = True"
| "stale_handled PermissionError = True"
| "stale_handled FileNotFoundError = True"
| "stale_handled OSError = True"
| "stale_handled _ = False"

definition pid_name :: "string \<Rightarrow> string" where
  "pid_name context_name = context_name @ ''.pid''"

definition network_name :: "string \<Rightarrow> string" where
  "network_name context_name = context_name @ ''.network''"

definition get_tunnel_pid_file :: "string \<Rightarrow> world \<Rightarrow> string \<times> world" where
  "get_tunnel_pid_file context_name w = (pid_name context_name, apply_op w Mkdir)"

text \<open>
  \<open>int(f.read().strip())\<close> followed by \<open>os.kill(pid, sig)\<close>: the body of the \<open>try\<close>
  block that \<open>is_tunnel_running\<close>, \<open>kill_tunnel\<close> and \<open>get_tunnel_pid\<close> share.
\<close>

definition read_and_signal :: "string \<Rightarrow> nat \<Rightarrow> world \<Rightarrow> (exn + int) \<times> world" where
  "read_and_signal text sig w =
     (case py_int (strip text) of
        Inl e \<Rightarrow> (Inl e, w)
      | Inr pid \<Rightarrow>
          (case os_kill pid sig w of
             (Inl e, w') \<Rightarrow> (Inl e, w')
           | (Inr u, w') \<Rightarrow> (Inr pid, w')))"

definition is_tunnel_running :: "string \<Rightarrow> world \<Rightarrow> (exn + bool) \<times> world" where
  "is_tunnel_running context_name w =
     (case get_tunnel_pid_file context_name w of (pid_file, w1) \<Rightarrow>
        (case files w1 pid_file of
           None \<Rightarrow> (Inr False, w1)
         | Some text \<Rightarrow>
             (case read_and_signal text 0 w1 of
                (Inr pid, w2) \<Rightarrow> (Inr True, w2)
              | (Inl e, w2) \<Rightarrow>
                  if stale_handled e then (Inr False, apply_op w2 (Unlink pid_file))
                  else (Inl e, w2))))"

text \<open>
  \<open>kill_tunnel\<close>: the \<open>finally\<close> clause unlinks the file whether the \<open>try\<close> block
  returned, raised what the \<open>except\<close> clause names, or raised anything else (which is
  then raised again after the unlink).
\<close>

definition kill_tunnel :: "string \<Rightarrow> world \<Rightarrow> (exn + unit) \<times> world" where
  "kill_tunnel context_name w =
     (case get_tunnel_pid_file context_name w of (pid_file, w1) \<Rightarrow>
        (case files w1 pid_file of
           None \<Rightarrow> (Inr (), w1)
         | Some text \<Rightarrow>
             (case read_and_signal text 15 w1 of
                (Inr pid, w2) \<Rightarrow> (Inr (), apply_op w2 (Unlink pid_file))
              | (Inl e, w2) \<Rightarrow>
                  (if stale_handled e then Inr () else Inl e,
                   apply_op w2 (Unlink pid_file)))))"



definition get_network_metadata_file :: "string \<Rightarrow> world \<Rightarrow> string \<times> world" where
  "get_network_metadata_file context_name w = (network_name context_name, apply_op w Mkdir)"






definition remove_network_metadata :: "string \<Rightarrow> world \<Rightarrow> world" where
  "remove_network_metadata context_name w =
     (case get_network_metadata_file context_name w of (network_file, w1) \<Rightarrow>
        apply_op w1 (Unlink network_file))"

section \<open>Running external commands\<close>

text \<open>
  What a command does when it is run: it exits after some time (in milliseconds) with a
  return code, its two outputs and the processes it has left in the background; or it
  never exits; or it cannot be started (\<open>FileNotFoundError\<close> when the program is missing).
  The environment is a function from the command line to what the command does.
\<close>

datatype behaviour =
    Exits nat int string string "int list"
  | Hangs
  | Launch_fails exn

type_synonym completed = "int \<times> string \<times> string"

text \<open>
  \<open>subprocess.run(cmd, capture_output=True, text=True, timeout=t)\<close>: the return code,
  stdout and stderr, or an exception.  Without a timeout a command that never exits is
  waited for forever: the result \<open>None\<close>.
\<close>

fun subprocess_run :: "behaviour \<Rightarrow> nat option \<Rightarrow> (exn + completed) option" where
  "subprocess_run (Launch_fails e) timeout = Some (Inl e)"
| "subprocess_run Hangs None = None"
| "subprocess_run Hangs (Some t) = Some (Inl TimeoutExpired)"
| "subprocess_run (Exits d rc out err bg) None = Some (Inr (rc, out, err))"
| "subprocess_run (Exits d rc out err bg) (Some t) =
     (if t < d then Some (Inl TimeoutExpired) else Some (Inr (rc, out, err)))"



subsection \<open>create_tunnel (tunnel.py)\<close>


section \<open>network_validator.py\<close>

text \<open>
  \<open>check_sshuttle_active\<close>: both searches have a timeout of two seconds;
  \<open>TimeoutExpired\<close> and \<open>FileNotFoundError\<close> give \<open>False\<close>, any other exception is
  raised.
\<close>

definition pgrep_found :: "completed \<Rightarrow> bool" where
  "pgrep_found r = (case r of (rc, out, err) \<Rightarrow> rc = 0 \<and> strip out \<noteq> [])"

fun probe_handled :: "exn \<Rightarrow> bool" where
  "probe_handled TimeoutExpired = True"
| "probe_handled FileNotFoundError = True"
| "probe_handled _ = False"

definition check_sshuttle_active ::
  "(string list \<Rightarrow> behaviour) \<Rightarrow> pyval \<Rightarrow> (exn + bool) option" where
  "check_sshuttle_active exec network_range =
     (case subprocess_run (exec [''pgrep'', ''-f'', ''sshuttle.*'' @ py_str network_range])
             (Some 2000) of
        None \<Rightarrow> None
      | Some (Inl e) \<Rightarrow> Some (if probe_handled e then Inr False else Inl e)
      | Some (Inr r) \<Rightarrow>
          if pgrep_found r then Some (Inr True)
          else (case subprocess_run (exec [''pgrep'', ''-f'', ''sshuttle'']) (Some 2000) of
                  None \<Rightarrow> None
                | Some (Inl e) \<Rightarrow> Some (if probe_handled e then Inr False else Inl e)
                | Some (Inr r') \<Rightarrow> Some (Inr (pgrep_found r'))))"

text \<open>
  \<open>get_network_metadata\<close>: \<open>None\<close> when the file is missing or loading it raises, else
  whatever \<open>yaml.safe_load\<close> returns.  It does not create the directory.
\<close>

definition get_network_metadata :: "yaml_module \<Rightarrow> string \<Rightarrow> world \<Rightarrow> pydoc" where
  "get_network_metadata yaml context_name w =
     (case files w (network_name context_name) of
        None \<Rightarrow> Value PNone
      | Some text \<Rightarrow>
          (case safe_load yaml text of
             Inl e \<Rightarrow> Value PNone
           | Inr doc \<Rightarrow> doc))"

text \<open>
  \<open>validate_context_network\<close>: the pair (is_valid, warning_message).  A loaded value
  that is true but not a dict has no \<open>get\<close>: \<open>AttributeError\<close>.
\<close>

definition validate_context_network ::
  "yaml_module \<Rightarrow> (string list \<Rightarrow> behaviour) \<Rightarrow> string \<Rightarrow> world
     \<Rightarrow> (exn + bool \<times> string option) option" where
  "validate_context_network yaml exec context_name w =
     (let metadata = get_network_metadata yaml context_name w
      in if \<not> truthy_doc metadata then Some (Inr (True, None))
         else case metadata of
                Value v \<Rightarrow> Some (Inl AttributeError)
              | Dict items \<Rightarrow>
                  let network_type = dict_get items ''network_type'' PNone
                  in if truthy (dict_get items ''needs_vpn'' PNone)
                     then Some (Inr (False, Some ''This cluster requires VPN connection''))
                     else if network_type = PStr ''sshuttle''
                     then
                       (let network_range = dict_get items ''network_range'' PNone;
                            sshuttle_cmd =
                              dict_get items ''sshuttle_command''
                                (PStr (''sshuttle -v -r <gateway> '' @ py_str network_range))
                        in case check_sshuttle_active exec network_range of
                             None \<Rightarrow> None
                           | Some (Inl e) \<Rightarrow> Some (Inl e)
                           | Some (Inr active) \<Rightarrow>
                               if \<not> active
                               then Some (Inr (False,
                                      Some (''This cluster requires sshuttle for ''
                                              @ py_str network_range
                                              @ [CHR 0x0A] @ ''  Run: '' @ py_str sshuttle_cmd)))
                               else Some (Inr (True, None)))
                     else Some (Inr (True, None)))"

section \<open>multi_status.py\<close>

text \<open>
  \<open>get_current_context\<close>: the query has a timeout of five seconds; the result is the
  stripped output when the return code is 0 and \<open>None\<close> otherwise, also when the query
  times out or kubectl is missing.
\<close>

definition get_current_context ::
  "(string list \<Rightarrow> behaviour) \<Rightarrow> (exn + string option) option" where
  "get_current_context exec =
     (case subprocess_run (exec [''kubectl'', ''config'', ''current-context'']) (Some 5000) of
        None \<Rightarrow> None
      | Some (Inl e) \<Rightarrow> Some (if probe_handled e then Inr None else Inl e)
      | Some (Inr (rc, out, err)) \<Rightarrow>
          Some (Inr (if rc = 0 then Some (strip out) else None)))"

text \<open>\<open>get_tunnel_pid\<close>: as the liveness check, but the file stays.\<close>

definition get_tunnel_pid :: "string \<Rightarrow> world \<Rightarrow> (exn + int option) \<times> world" where
  "get_tunnel_pid context_name w =
     (case get_tunnel_pid_file context_name w of (pid_file, w1) \<Rightarrow>
        (case files w1 pid_file of
           None \<Rightarrow> (Inr None, w1)
         | Some text \<Rightarrow>
             (case read_and_signal text 0 w1 of
                (Inr pid, w2) \<Rightarrow> (Inr (Some pid), w2)
              | (Inl e, w2) \<Rightarrow> (if stale_handled e then Inr None else Inl e, w2))))"




section \<open>multi_connect.py\<close>

text \<open>
  The module constants read from the configuration file (\<open>TARGET_PORT\<close>,
  \<open>PORT_RANGE_START\<close>, \<open>PORT_RANGE_SIZE\<close>), the fields of a cluster that
  \<open>connect_cluster\<close> reads, and what the code outside the sources answers during one
  call: \<open>load_ssh_config\<close> raising or not, and the remote host giving its internal
  address or the fetch failing.
\<close>

record config =
  target_port :: int
  port_range_start :: int
  port_range_size :: int

record cluster =
  c_company :: string
  c_host_alias :: string
  c_network_type :: "string option"
  c_network_range :: "string option"
  c_needs_vpn :: bool







section \<open>Notions used in the statements, and example states\<close>

text \<open>
  The pid file of the context is missing, or does not parse, or holds a number that fits
  the C type of a process id.
\<close>

definition record_in_range :: "world \<Rightarrow> string \<Rightarrow> bool" where
  "record_in_range w context_name =
     (case files w (pid_name context_name) of
        None \<Rightarrow> True
      | Some text \<Rightarrow>
          (case py_int (strip text) of
             Inl e \<Rightarrow> True
           | Inr pid \<Rightarrow> pid_in_range pid))"

definition no_procs :: "int \<Rightarrow> proc_status" where
  "no_procs pid = NoProc"

text \<open>
  A state directory with the record of a tunnel whose process 4242 is gone, and the
  network metadata written with it.
\<close>

definition stale_world :: world where
  "stale_world =
     \<lparr>state_dir_exists = True,
      files = [''acme-prod1.pid'' \<mapsto> ''4242'', ''acme-prod1.network'' \<mapsto> ''needs_vpn: true''],
      procs = no_procs,
      ssh_calls = []\<rparr>"

text \<open>The same with a pid file that holds no number.\<close>

definition garbled_world :: world where
  "garbled_world =
     \<lparr>state_dir_exists = True,
      files = [''acme-prod1.pid'' \<mapsto> ''not a pid''],
      procs = no_procs,
      ssh_calls = []\<rparr>"

text \<open>
  A yaml module that knows three documents, each with the dict that YAML gives it, and
  dumps the dict with the single key \<open>needs_vpn\<close>.
\<close>

definition example_yaml :: yaml_module where
  "example_yaml =
     \<lparr>safe_dump =
        (\<lambda>items. if items = [(PStr ''needs_vpn'', PBool True)]
                  then Inr (''needs_vpn: true'' @ [CHR 0x0A])
                  else Inl ValueError),
      safe_load =
        (\<lambda>text.
           if text = ''needs_vpn: true''
           then Inr (Dict [(PStr ''needs_vpn'', PBool True)])
           else if text = ''{network_range: 192.168.90.0/24, network_type: sshuttle}''
           then Inr (Dict [(PStr ''network_range'', PStr ''192.168.90.0/24''),
                           (PStr ''network_type'', PStr ''sshuttle'')])
           else if text
                   = ''{needs_vpn: true, network_range: 192.168.90.0/24, network_type: sshuttle}''
           then Inr (Dict [(PStr ''needs_vpn'', PBool True),
                           (PStr ''network_range'', PStr ''192.168.90.0/24''),
                           (PStr ''network_type'', PStr ''sshuttle'')])
           else Inl ValueError)\<rparr>"

text \<open>
  Environments: every command exits at once with return code 1 and no output (so pgrep
  finds nothing); no command ever exits; no program is installed.
\<close>

definition exec_no_match :: "string list \<Rightarrow> behaviour" where
  "exec_no_match cmd = Exits 20 1 [] [] []"

definition exec_hangs :: "string list \<Rightarrow> behaviour" where
  "exec_hangs cmd = Hangs"

definition exec_missing :: "string list \<Rightarrow> behaviour" where
  "exec_missing cmd = Launch_fails FileNotFoundError"

text \<open>
  A kubectl that answers only after six seconds.
\<close>

definition exec_slow :: "string list \<Rightarrow> behaviour" where
  "exec_slow cmd = Exits 6000 0 ''acme-prod1'' [] []"

text \<open>
  State directories with the metadata of a cluster behind sshuttle, and of one that
  needs both sshuttle and a VPN.
\<close>

definition sshuttle_world :: world where
  "sshuttle_world =
     \<lparr>state_dir_exists = True,
      files = [''acme-prod1.network''
                 \<mapsto> ''{network_range: 192.168.90.0/24, network_type: sshuttle}''],
      procs = no_procs,
      ssh_calls = []\<rparr>"

definition vpn_sshuttle_world :: world where
  "vpn_sshuttle_world =
     \<lparr>state_dir_exists = True,
      files = [''acme-prod1.network''
                 \<mapsto> ''{needs_vpn: true, network_range: 192.168.90.0/24, network_type: sshuttle}''],
      procs = no_procs,
      ssh_calls = []\<rparr>"

text \<open>An empty state directory.\<close>

definition fresh_world :: world where
  "fresh_world =
     \<lparr>state_dir_exists = True, files = Map.empty, procs = no_procs, ssh_calls = []\<rparr>"











section \<open>The port allocator stays in its range\<close>

lemma hex_value_hex_digit:
  assumes "k < 16"
  shows "hex_value (hex_digit k) = Some (int k)"
proof -
  from assms have "k \<in> set [0..<16]" by simp
  then have "k \<in> {0, 1, 2, 3, 4, 5, 6, 7, 8, 9, 10, 11, 12, 13, 14, 15}"
    by (simp only: upt_conv_Cons upt_conv_Nil set_simps) auto
  then show ?thesis
    by (auto simp: hex_digit_def hex_value_def)
qed

lemma int16_four_digits:
  assumes "p < 16" "q < 16" "r < 16" "s < 16"
  shows "int16 [hex_digit p, hex_digit q, hex_digit r, hex_digit s]
           = Inr (16 * (16 * (16 * int p + int q) + int r) + int s)"
  using assms by (simp add: int16_def hex_value_hex_digit)

lemma byte_nibbles:
  fixes a :: byte
  shows "unat a div 16 < 16" and "unat a mod 16 < 16"
proof -
  have "unat a < 256"
    using unsigned_less [of a, where 'a = nat] by simp
  then show "unat a div 16 < 16" by simp
  show "unat a mod 16 < 16" by simp
qed

lemma int16_hex_byte2: "\<exists>h. int16 (hex_byte a @ hex_byte b) = Inr h"
proof -
  have "int16 (hex_byte a @ hex_byte b)
          = Inr (16 * (16 * (16 * int (unat a div 16) + int (unat a mod 16))
                  + int (unat b div 16)) + int (unat b mod 16))"
    unfolding hex_byte_def append.simps
    by (rule int16_four_digits) (rule byte_nibbles)+
  then show ?thesis by simp
qed

lemma length_le_bytes: "length (le_bytes w) = 4"
  by (simp add: le_bytes_def)

lemma length_md5_digest: "length (md5_digest msg) = 16"
  by (simp add: md5_digest_def length_le_bytes split: prod.split)

lemma take4_hexdigest: "\<exists>a b. take 4 (hexdigest msg) = hex_byte a @ hex_byte b"
proof -
  obtain a b rest where "md5_digest msg = a # b # rest"
    using length_md5_digest [of msg]
    by (cases "md5_digest msg" rule: list.exhaust; simp;
        metis numeral_eq_Suc Suc_length_conv)
  then show ?thesis
    by (auto simp: hexdigest_def hex_byte_def)
qed

lemma hash_int_exists: "\<exists>h. int16 (take 4 (hexdigest msg)) = Inr h"
  using take4_hexdigest [of msg] int16_hex_byte2 by auto


text \<open>
  Claim C1.  The port is a function of the context name and the range alone: the
  definition of \<open>get_unique_port\<close> takes no state and reads none, so the same context
  gives the same port in every call and every process.  For the default range, start
  16443 and size 10000, the call raises nothing and the port is at least 16443 and below
  26443, for every context name.
\<close>

theorem get_unique_port_default_range:
  "\<exists>port. get_unique_port context_name default_port_range_start default_port_range_size
             = Inr port
      \<and> 16443 \<le> port \<and> port < 26443"
proof -
  obtain h where h: "int16 (take 4 (hexdigest (encode context_name))) = Inr h"
    using hash_int_exists by blast
  have "0 \<le> h mod 10000" "h mod 10000 < 10000" by simp_all
  then show ?thesis
    by (simp add: get_unique_port_def h default_port_range_start_def
        default_port_range_size_def)
qed

section \<open>Liveness check and kill\<close>

lemma pid_name_neq_network_name: "pid_name c \<noteq> network_name c'"
proof
  assume "pid_name c = network_name c'"
  then have "last (c @ ''.pid'') = last (c' @ ''.network'')"
    by (simp add: pid_name_def network_name_def)
  then show False by simp
qed

lemma dec_acc_error: "dec_acc acc after_digit s = Inl e \<Longrightarrow> e = ValueError"
  by (induction acc after_digit s rule: dec_acc.induct)
     (auto split: option.splits if_splits)

lemma py_int_error: "py_int s = Inl e \<Longrightarrow> e = ValueError"
  by (cases "strip s")
     (auto simp: py_int_def map_sum_def simp del: dec_acc.simps dest: dec_acc_error
        split: if_splits sum.splits)

lemma py_int_4242: "py_int (strip ''4242'') = Inr 4242"
  by (simp add: py_int_def strip_def is_space_def digit_value_def)

lemma py_int_garbled: "py_int (strip ''not a pid'') = Inl ValueError"
  by (simp add: py_int_def strip_def is_space_def digit_value_def)



text \<open>
  Claim C10.  Let the pid file of a context exist with a text that \<open>int()\<close> rejects.
  Then \<open>is_tunnel_running\<close> returns false, raising nothing, and ends in the state where
  the file is unlinked, the same end state as for a dead process; and \<open>get_tunnel_pid\<close>
  returns \<open>None\<close>, raising nothing.
\<close>

theorem unparseable_record_is_stale:
  assumes "files w (pid_name context_name) = Some text"
    and "py_int (strip text) = Inl ValueError"
  shows "is_tunnel_running context_name w
           = (Inr False, run_ops [Mkdir, Unlink (pid_name context_name)] w)
       \<and> files (run_ops [Mkdir, Unlink (pid_name context_name)] w) (pid_name context_name) = None
       \<and> get_tunnel_pid context_name w = (Inr None, run_ops [Mkdir] w)"
  using assms
  by (simp add: is_tunnel_running_def get_tunnel_pid_def get_tunnel_pid_file_def
      read_and_signal_def run_ops_def)

theorem unparseable_record_is_stale_witness:
  "files garbled_world (pid_name ''acme-prod1'') = Some ''not a pid''
   \<and> py_int (strip ''not a pid'') = Inl ValueError
   \<and> is_tunnel_running ''acme-prod1'' garbled_world
       = (Inr False, run_ops [Mkdir, Unlink (pid_name ''acme-prod1'')] garbled_world)
   \<and> get_tunnel_pid ''acme-prod1'' garbled_world = (Inr None, run_ops [Mkdir] garbled_world)"
proof -
  have h1: "files garbled_world (pid_name ''acme-prod1'') = Some ''not a pid''"
    by (simp add: garbled_world_def pid_name_def)
  from unparseable_record_is_stale [OF h1 py_int_garbled] h1 py_int_garbled
  show ?thesis by blast
qed

lemma kill_tunnel_files:
  "files (snd (kill_tunnel context_name w)) = (files w)(pid_name context_name := None)"
  by (auto simp: kill_tunnel_def get_tunnel_pid_file_def read_and_signal_def os_kill_def
      split: option.split sum.split proc_status.split prod.split)

lemma kill_tunnel_no_error:
  "record_in_range w context_name \<Longrightarrow> fst (kill_tunnel context_name w) = Inr ()"
  by (auto simp: kill_tunnel_def get_tunnel_pid_file_def read_and_signal_def os_kill_def
      record_in_range_def dest: py_int_error
      split: option.splits sum.splits proc_status.splits prod.splits)

lemma remove_network_metadata_files:
  "files (remove_network_metadata context_name w) = (files w)(network_name context_name := None)"
  by (simp add: remove_network_metadata_def get_network_metadata_file_def)

text \<open>
  Claim C2, as stated, fails: \<open>kill_tunnel\<close> unlinks the pid file only.  In the state
  with the record of the dead process 4242 and the metadata written with it, the
  metadata file is still there after the kill.
\<close>

theorem kill_tunnel_keeps_network_metadata_counterexample:
  "\<not> (files (snd (kill_tunnel ''acme-prod1'' stale_world)) (pid_name ''acme-prod1'') = None
       \<and> files (snd (kill_tunnel ''acme-prod1'' stale_world)) (network_name ''acme-prod1'') = None)"
  by (simp add: kill_tunnel_files stale_world_def pid_name_def network_name_def)

text \<open>
  Claim C2, amended.  For every context and state, \<open>kill_tunnel\<close> ends with the pid file
  absent (whether the record was missing, unparseable, or named a dead or a live
  process) and leaves the network metadata file as it was; it raises nothing when the
  record is missing, does not parse, or holds a number in the range of a process id.
  The metadata file is removed by \<open>remove_network_metadata\<close>, a separate call, after which
  both files are absent.
\<close>

theorem kill_tunnel_removes_record:
  "files (snd (kill_tunnel context_name w)) (pid_name context_name) = None
   \<and> files (snd (kill_tunnel context_name w)) (network_name context_name)
       = files w (network_name context_name)
   \<and> (record_in_range w context_name \<longrightarrow> fst (kill_tunnel context_name w) = Inr ())
   \<and> files (remove_network_metadata context_name (snd (kill_tunnel context_name w)))
       (network_name context_name) = None
   \<and> files (remove_network_metadata context_name (snd (kill_tunnel context_name w)))
       (pid_name context_name) = None"
  using pid_name_neq_network_name [of context_name context_name]
  by (auto simp: kill_tunnel_files remove_network_metadata_files kill_tunnel_no_error)

theorem kill_tunnel_removes_record_witness:
  "record_in_range stale_world ''acme-prod1''
   \<and> fst (kill_tunnel ''acme-prod1'' stale_world) = Inr ()
   \<and> files (snd (kill_tunnel ''acme-prod1'' stale_world)) (pid_name ''acme-prod1'') = None"
proof -
  have h: "record_in_range stale_world ''acme-prod1''"
    by (simp add: record_in_range_def stale_world_def pid_name_def py_int_4242 pid_in_range_def)
  from kill_tunnel_removes_record [of "''acme-prod1''" stale_world] h
  show ?thesis by blast
qed

section \<open>No requirement, no metadata file\<close>




lemma get_network_metadata_absent:
  "files w (network_name c) = None \<Longrightarrow> get_network_metadata yaml c w = Value PNone"
  by (simp add: get_network_metadata_def)

lemma validate_absent:
  "files w (network_name c) = None \<Longrightarrow>
     validate_context_network yaml exec c w = Some (Inr (True, None))"
  by (simp add: validate_context_network_def get_network_metadata_absent)









section \<open>Network validation and the current context\<close>

lemma check_sshuttle_active_no_match:
  "check_sshuttle_active exec_no_match network_range = Some (Inr False)"
  by (simp add: check_sshuttle_active_def exec_no_match_def pgrep_found_def)

lemma validate_needs_vpn:
  assumes "get_network_metadata yaml c w = Dict items"
    and "truthy (dict_get items ''needs_vpn'' PNone)"
  shows "validate_context_network yaml exec c w
           = Some (Inr (False, Some ''This cluster requires VPN connection''))"
proof -
  have "items \<noteq> []"
    using assms(2) by (auto simp: dict_get_def)
  then show ?thesis
    using assms by (simp add: validate_context_network_def)
qed

lemma validate_sshuttle_inactive:
  assumes "get_network_metadata yaml c w = Dict items"
    and "\<not> truthy (dict_get items ''needs_vpn'' PNone)"
    and "dict_get items ''network_type'' PNone = PStr ''sshuttle''"
    and "dict_get items ''network_range'' PNone = PStr cidr"
    and "check_sshuttle_active exec (PStr cidr) = Some (Inr False)"
  shows "\<exists>warning. validate_context_network yaml exec c w = Some (Inr (False, Some warning))
           \<and> sublist cidr warning"
proof -
  have ne: "items \<noteq> []"
    using assms(3) by (auto simp: dict_get_def)
  define cmd where
    "cmd = py_str (dict_get items ''sshuttle_command''
                     (PStr (''sshuttle -v -r <gateway> '' @ cidr)))"
  have "validate_context_network yaml exec c w
          = Some (Inr (False, Some (''This cluster requires sshuttle for '' @ cidr
                                      @ [CHR 0x0A] @ ''  Run: '' @ cmd)))"
    using assms ne by (simp add: validate_context_network_def cmd_def)
  moreover have "sublist cidr (''This cluster requires sshuttle for '' @ cidr
                                  @ [CHR 0x0A] @ ''  Run: '' @ cmd)"
    by (rule sublist_appendI)
  ultimately show ?thesis by blast
qed

text \<open>
  Claim C6, amended.  \<open>validate_context_network\<close> returns valid with no warning when
  the context has no metadata file.  When the loaded metadata is a dict whose
  \<open>needs_vpn\<close> is true, it returns not valid with the VPN warning, whatever else the
  dict holds.  When the loaded metadata is a dict whose \<open>needs_vpn\<close> is not true, whose
  \<open>network_type\<close> is \<open>sshuttle\<close> and whose \<open>network_range\<close> is a text, and
  \<open>check_sshuttle_active\<close> finds neither a process for that range nor any sshuttle
  process, it returns not valid with a warning that contains the range.
\<close>

theorem validate_context_network_cases:
  "(files w (network_name c) = None \<longrightarrow>
      validate_context_network yaml exec c w = Some (Inr (True, None)))
   \<and> (get_network_metadata yaml c w = Dict items
        \<and> truthy (dict_get items ''needs_vpn'' PNone) \<longrightarrow>
        validate_context_network yaml exec c w
          = Some (Inr (False, Some ''This cluster requires VPN connection'')))
   \<and> (get_network_metadata yaml c w = Dict items
        \<and> \<not> truthy (dict_get items ''needs_vpn'' PNone)
        \<and> dict_get items ''network_type'' PNone = PStr ''sshuttle''
        \<and> dict_get items ''network_range'' PNone = PStr cidr
        \<and> check_sshuttle_active exec (PStr cidr) = Some (Inr False) \<longrightarrow>
        (\<exists>warning. validate_context_network yaml exec c w
                      = Some (Inr (False, Some warning))
                    \<and> sublist cidr warning))"
proof (intro conjI impI)
  assume "files w (network_name c) = None"
  then show "validate_context_network yaml exec c w = Some (Inr (True, None))"
    by (rule validate_absent)
next
  assume "get_network_metadata yaml c w = Dict items
            \<and> truthy (dict_get items ''needs_vpn'' PNone)"
  then show "validate_context_network yaml exec c w
               = Some (Inr (False, Some ''This cluster requires VPN connection''))"
    by (simp add: validate_needs_vpn)
next
  assume "get_network_metadata yaml c w = Dict items
            \<and> \<not> truthy (dict_get items ''needs_vpn'' PNone)
            \<and> dict_get items ''network_type'' PNone = PStr ''sshuttle''
            \<and> dict_get items ''network_range'' PNone = PStr cidr
            \<and> check_sshuttle_active exec (PStr cidr) = Some (Inr False)"
  then show "\<exists>warning. validate_context_network yaml exec c w
                          = Some (Inr (False, Some warning))
                        \<and> sublist cidr warning"
    using validate_sshuttle_inactive [of yaml c w items cidr exec] by blast
qed

lemma metadata_vpn_sshuttle:
  "get_network_metadata example_yaml ''acme-prod1'' vpn_sshuttle_world
     = Dict [(PStr ''needs_vpn'', PBool True),
             (PStr ''network_range'', PStr ''192.168.90.0/24''),
             (PStr ''network_type'', PStr ''sshuttle'')]"
  by (simp add: get_network_metadata_def vpn_sshuttle_world_def network_name_def
      example_yaml_def)

lemma metadata_sshuttle:
  "get_network_metadata example_yaml ''acme-prod1'' sshuttle_world
     = Dict [(PStr ''network_range'', PStr ''192.168.90.0/24''),
             (PStr ''network_type'', PStr ''sshuttle'')]"
  by (simp add: get_network_metadata_def sshuttle_world_def network_name_def
      example_yaml_def)

lemma metadata_vpn:
  "get_network_metadata example_yaml ''acme-prod1'' stale_world
     = Dict [(PStr ''needs_vpn'', PBool True)]"
  by (simp add: get_network_metadata_def stale_world_def network_name_def
      example_yaml_def)

text \<open>
  Claim C6, as stated, fails for metadata that has both requirements: the VPN check
  comes first, and its warning does not name the range.  The metadata is the one that
  \<open>connect_cluster\<close> saves for a cluster whose inventory asks for a VPN and whose address
  lies in an sshuttle range.
\<close>

theorem validate_vpn_before_sshuttle_counterexample:
  "dict_get [(PStr ''needs_vpn'', PBool True),
             (PStr ''network_range'', PStr ''192.168.90.0/24''),
             (PStr ''network_type'', PStr ''sshuttle'')] ''network_type'' PNone
     = PStr ''sshuttle''
   \<and> dict_get [(PStr ''needs_vpn'', PBool True),
             (PStr ''network_range'', PStr ''192.168.90.0/24''),
             (PStr ''network_type'', PStr ''sshuttle'')] ''network_range'' PNone
     = PStr ''192.168.90.0/24''
   \<and> get_network_metadata example_yaml ''acme-prod1'' vpn_sshuttle_world
     = Dict [(PStr ''needs_vpn'', PBool True),
             (PStr ''network_range'', PStr ''192.168.90.0/24''),
             (PStr ''network_type'', PStr ''sshuttle'')]
   \<and> check_sshuttle_active exec_no_match (PStr ''192.168.90.0/24'') = Some (Inr False)
   \<and> validate_context_network example_yaml exec_no_match ''acme-prod1'' vpn_sshuttle_world
       = Some (Inr (False, Some ''This cluster requires VPN connection''))
   \<and> \<not> sublist ''192.168.90.0/24'' ''This cluster requires VPN connection''"
proof -
  have "\<not> sublist ''192.168.90.0/24'' ''This cluster requires VPN connection''"
    by code_simp
  moreover have "validate_context_network example_yaml exec_no_match ''acme-prod1''
                   vpn_sshuttle_world
                   = Some (Inr (False, Some ''This cluster requires VPN connection''))"
    by (simp add: validate_context_network_def metadata_vpn_sshuttle dict_get_def)
  ultimately show ?thesis
    by (simp add: metadata_vpn_sshuttle check_sshuttle_active_no_match dict_get_def)
qed

theorem validate_context_network_cases_witness:
  "files fresh_world (network_name ''acme-prod1'') = None
   \<and> validate_context_network example_yaml exec_no_match ''acme-prod1'' fresh_world
       = Some (Inr (True, None))
   \<and> validate_context_network example_yaml exec_no_match ''acme-prod1'' stale_world
       = Some (Inr (False, Some ''This cluster requires VPN connection''))
   \<and> (\<exists>warning. validate_context_network example_yaml exec_no_match ''acme-prod1''
                    sshuttle_world = Some (Inr (False, Some warning))
                  \<and> sublist ''192.168.90.0/24'' warning)"
proof -
  have h1: "files fresh_world (network_name ''acme-prod1'') = None"
    by (simp add: fresh_world_def)
  have h2: "truthy (dict_get [(PStr ''needs_vpn'', PBool True)] ''needs_vpn'' PNone)"
    by (simp add: dict_get_def)
  have h3: "\<not> truthy (dict_get [(PStr ''network_range'', PStr ''192.168.90.0/24''),
                                  (PStr ''network_type'', PStr ''sshuttle'')]
                                 ''needs_vpn'' PNone)"
           "dict_get [(PStr ''network_range'', PStr ''192.168.90.0/24''),
                      (PStr ''network_type'', PStr ''sshuttle'')] ''network_type'' PNone
              = PStr ''sshuttle''"
           "dict_get [(PStr ''network_range'', PStr ''192.168.90.0/24''),
                      (PStr ''network_type'', PStr ''sshuttle'')] ''network_range'' PNone
              = PStr ''192.168.90.0/24''"
    by (simp_all add: dict_get_def)
  from validate_context_network_cases
         [where w = fresh_world and c = "''acme-prod1''" and yaml = example_yaml
            and exec = exec_no_match]
       validate_context_network_cases
         [where w = stale_world and c = "''acme-prod1''" and yaml = example_yaml
            and exec = exec_no_match and items = "[(PStr ''needs_vpn'', PBool True)]"]
       validate_context_network_cases
         [where w = sshuttle_world and c = "''acme-prod1''" and yaml = example_yaml
            and exec = exec_no_match
            and items = "[(PStr ''network_range'', PStr ''192.168.90.0/24''),
                          (PStr ''network_type'', PStr ''sshuttle'')]"
            and cidr = "''192.168.90.0/24''"]
       h1 h2 h3 metadata_vpn metadata_sshuttle
       check_sshuttle_active_no_match [of "PStr ''192.168.90.0/24''"]
  show ?thesis by blast
qed

text \<open>
  Claim C9.  \<open>get_current_context\<close> returns in every environment, also one where
  kubectl never exits: the query is run with a timeout of five seconds.  It returns
  \<open>None\<close> when kubectl exits with a return code other than 0, when it takes longer than
  the timeout, when it never exits, and when it is not installed.
\<close>

theorem get_current_context_bounded:
  "(\<exists>r. get_current_context exec = Some r)
   \<and> (exec [''kubectl'', ''config'', ''current-context''] = Exits d rc out err bg
        \<and> rc \<noteq> 0 \<longrightarrow> get_current_context exec = Some (Inr None))
   \<and> (exec [''kubectl'', ''config'', ''current-context''] = Exits d rc out err bg
        \<and> 5000 < d \<longrightarrow> get_current_context exec = Some (Inr None))
   \<and> (exec [''kubectl'', ''config'', ''current-context''] = Hangs
        \<longrightarrow> get_current_context exec = Some (Inr None))
   \<and> (exec [''kubectl'', ''config'', ''current-context''] = Launch_fails FileNotFoundError
        \<longrightarrow> get_current_context exec = Some (Inr None))"
  by (cases "exec [''kubectl'', ''config'', ''current-context'']")
     (auto simp: get_current_context_def)

theorem get_current_context_bounded_witness:
  "exec_no_match [''kubectl'', ''config'', ''current-context''] = Exits 20 1 [] [] []
   \<and> (1::int) \<noteq> 0
   \<and> get_current_context exec_no_match = Some (Inr None)
   \<and> exec_slow [''kubectl'', ''config'', ''current-context'']
       = Exits 6000 0 ''acme-prod1'' [] []
   \<and> (5000::nat) < 6000
   \<and> get_current_context exec_slow = Some (Inr None)
   \<and> exec_hangs [''kubectl'', ''config'', ''current-context''] = Hangs
   \<and> get_current_context exec_hangs = Some (Inr None)
   \<and> exec_missing [''kubectl'', ''config'', ''current-context'']
       = Launch_fails FileNotFoundError
   \<and> get_current_context exec_missing = Some (Inr None)"
proof -
  have h1: "exec_no_match [''kubectl'', ''config'', ''current-context''] = Exits 20 1 [] [] []"
    by (simp add: exec_no_match_def)
  have h2: "exec_slow [''kubectl'', ''config'', ''current-context'']
              = Exits 6000 0 ''acme-prod1'' [] []"
    by (simp add: exec_slow_def)
  have h3: "exec_hangs [''kubectl'', ''config'', ''current-context''] = Hangs"
    by (simp add: exec_hangs_def)
  have h4: "exec_missing [''kubectl'', ''config'', ''current-context'']
              = Launch_fails FileNotFoundError"
    by (simp add: exec_missing_def)
  have h5: "(1::int) \<noteq> 0" "(5000::nat) < 6000"
    by simp_all
  from get_current_context_bounded [of exec_no_match 20 1 "[]" "[]" "[]"]
       get_current_context_bounded [of exec_slow 6000 0 "''acme-prod1''" "[]" "[]"]
       get_current_context_bounded [of exec_hangs]
       get_current_context_bounded [of exec_missing]
       h1 h2 h3 h4 h5
  show ?thesis by blast
qed

section \<open>Writes to the state store and crashes\<close>









section \<open>Connecting a cluster\<close>




























end
